theory Spec2Isabelle
  imports Complex_Main "HOL-Library.AList"
begin

section \<open>Exceptions\<close>

text \<open>
  The Python exceptions that the pipeline can meet, each carrying its message.
  A computation that may raise returns \<open>py_error + 'a\<close>, with \<open>Inl\<close> for the
  raised exception.
\<close>

datatype exc_kind =
    EmptyDataError | ParserError | UnicodeDecodeError
  | ValueError | KeyError | AttributeError | JSONDecodeError | OtherError

datatype py_error = Raise exc_kind string

fun exc_str :: "py_error \<Rightarrow> string" where
  "exc_str (Raise k msg) = msg"

section \<open>The Dataset: a pandas DataFrame\<close>

text \<open>
  A float64 cell is a number or NaN, the marker pandas uses for a missing value.
  A finite float64 value is represented by the real number it denotes, which is
  exact for comparisons, minima and maxima. The results of float64 additions and
  divisions are given here by the exact real result, without the rounding and the
  overflow to infinity of the machine; no general statement below is about such a
  result. The two infinities are not represented.
\<close>

datatype f64 = Fin real | NaN

text \<open>
  A column (pandas Series) with its dtype. An int64 or uint64 column has no missing
  values; its cells are integers in the signed, respectively unsigned, 64-bit
  range. An object column holds its cells as text, with \<open>None\<close> for a missing
  cell.
\<close>

datatype series =
    Int64 "int list"
  | UInt64 "nat list"
  | Float64 "f64 list"
  | Bool "bool list"
  | Object "string option list"

fun series_len :: "series \<Rightarrow> nat" where
  "series_len (Int64 xs) = length xs"
| "series_len (UInt64 xs) = length xs"
| "series_len (Float64 xs) = length xs"
| "series_len (Bool xs) = length xs"
| "series_len (Object xs) = length xs"

text \<open>
  The frame keeps its row count (the length of its index) beside its named columns,
  as pandas does: a frame may have rows and no column.
\<close>

record dataframe =
  nrows :: nat
  columns :: "(string \<times> series) list"

definition int64_ok :: "int \<Rightarrow> bool" where
  "int64_ok v \<longleftrightarrow> - (2 ^ 63) \<le> v \<and> v < 2 ^ 63"

definition uint64_ok :: "nat \<Rightarrow> bool" where
  "uint64_ok v \<longleftrightarrow> v < 2 ^ 64"

fun series_ok :: "series \<Rightarrow> bool" where
  "series_ok (Int64 xs) = list_all int64_ok xs"
| "series_ok (UInt64 xs) = list_all uint64_ok xs"
| "series_ok s = True"

text \<open>The cells of a column, whatever its dtype.\<close>

datatype cell =
    IntCell int
  | UIntCell nat
  | FloatCell f64
  | BoolCell bool
  | ObjectCell "string option"

fun series_cells :: "series \<Rightarrow> cell list" where
  "series_cells (Int64 xs) = map IntCell xs"
| "series_cells (UInt64 xs) = map UIntCell xs"
| "series_cells (Float64 xs) = map FloatCell xs"
| "series_cells (Bool xs) = map BoolCell xs"
| "series_cells (Object xs) = map ObjectCell xs"

text \<open>
  The invariant of a Dataset: column names are unique, every column is as long as
  the index, and int64 and uint64 cells fit in 64 bits.
\<close>

definition wf_dataframe :: "dataframe \<Rightarrow> bool" where
  "wf_dataframe df \<longleftrightarrow>
     distinct (map fst (columns df)) \<and>
     list_all (\<lambda>c. series_len (snd c) = nrows df \<and> series_ok (snd c)) (columns df)"

text \<open>\<open>len(df)\<close> and \<open>df.empty\<close>: a frame is empty when either axis has length 0.\<close>

definition df_len :: "dataframe \<Rightarrow> nat" where
  "df_len df = nrows df"

definition df_empty :: "dataframe \<Rightarrow> bool" where
  "df_empty df \<longleftrightarrow> nrows df = 0 \<or> columns df = []"

section \<open>Tabular Loader\<close>

subsection \<open>pandas.read\_csv on unquoted comma-separated text\<close>

text \<open>
  The loader is one call of \<open>pd.read_csv\<close> with its default options. The model
  below covers unquoted ASCII text with comma-separated fields. Not modelled, and
  kept out of every general statement by hypothesis: quoted fields, bytes that are
  not valid text (UnicodeDecodeError), the renaming of empty or repeated header
  names, cells that spell an infinity, the rounding of a decimal literal to the
  nearest float64, and a column that mixes decimals with integers beyond 64 bits.
\<close>

text \<open>\<open>str.split(sep)\<close>: the pieces between separators, at least one piece.\<close>

fun split_on :: "char \<Rightarrow> string \<Rightarrow> string list" where
  "split_on sep [] = [[]]"
| "split_on sep (c # cs) =
     (if c = sep then [] # split_on sep cs
      else (case split_on sep cs of [] \<Rightarrow> [[c]] | w # ws \<Rightarrow> (c # w) # ws))"

text \<open>
  The physical lines of the text: a line ends at a line feed, at a carriage return,
  or at a carriage return followed by a line feed.
\<close>

fun cons_head :: "char \<Rightarrow> string list \<Rightarrow> string list" where
  "cons_head c [] = [[c]]"
| "cons_head c (w # ws) = (c # w) # ws"

fun split_lines :: "string \<Rightarrow> string list" where
  "split_lines [] = [[]]"
| "split_lines [c] = (if c = CHR 0x0D \<or> c = CHR 0x0A then [[], []] else [[c]])"
| "split_lines (c # d # cs) =
     (if c = CHR 0x0D \<and> d = CHR 0x0A then [] # split_lines cs
      else if c = CHR 0x0D \<or> c = CHR 0x0A then [] # split_lines (d # cs)
      else cons_head c (split_lines (d # cs)))"

text \<open>A line of blanks and tabs only is skipped (\<open>skip_blank_lines=True\<close>).\<close>

definition is_space :: "char \<Rightarrow> bool" where
  "is_space c \<longleftrightarrow> c = CHR '' '' \<or> c = CHR 0x09"

definition is_blank :: "string \<Rightarrow> bool" where
  "is_blank l \<longleftrightarrow> list_all is_space l"

text \<open>The default spellings of a missing value.\<close>

definition na_values :: "string list" where
  "na_values = ['''', ''#N/A'', ''#N/A N/A'', ''#NA'', ''-1.#IND'', ''-1.#QNAN'',
     ''-NaN'', ''-nan'', ''1.#IND'', ''1.#QNAN'', ''<NA>'', ''N/A'', ''NA'', ''NULL'',
     ''NaN'', ''None'', ''n/a'', ''nan'', ''null'']"

definition is_na :: "string \<Rightarrow> bool" where
  "is_na c \<longleftrightarrow> c \<in> set na_values"

definition true_values :: "string list" where
  "true_values = [''True'', ''TRUE'', ''true'']"

definition false_values :: "string list" where
  "false_values = [''False'', ''FALSE'', ''false'']"

definition is_digit :: "char \<Rightarrow> bool" where
  "is_digit c \<longleftrightarrow> c \<in> set ''0123456789''"

definition digit_val :: "char \<Rightarrow> nat" where
  "digit_val c = of_char c - 48"

definition nat_of_digits :: "string \<Rightarrow> nat" where
  "nat_of_digits ds = foldl (\<lambda>acc c. 10 * acc + digit_val c) 0 ds"

text \<open>The numeric conversions skip blanks and tabs around a number.\<close>

definition strip_blanks :: "string \<Rightarrow> string" where
  "strip_blanks s = rev (dropWhile is_space (rev (dropWhile is_space s)))"

definition strip_sign :: "string \<Rightarrow> bool \<times> string" where
  "strip_sign s =
     (case s of
        [] \<Rightarrow> (False, s)
      | c # cs \<Rightarrow> if c = CHR ''-'' then (True, cs)
                  else if c = CHR ''+'' then (False, cs) else (False, s))"

definition signed_digits :: "string \<Rightarrow> int option" where
  "signed_digits s =
     (case strip_sign s of (neg, ds) \<Rightarrow>
        if ds = [] \<or> \<not> list_all is_digit ds then None
        else Some (if neg then - int (nat_of_digits ds) else int (nat_of_digits ds)))"

text \<open>An integer literal: a signed run of digits, of any size.\<close>

definition int_literal :: "string \<Rightarrow> int option" where
  "int_literal s = signed_digits (strip_blanks s)"

text \<open>
  A float literal: signed digits with an optional fraction and an optional
  exponent.
\<close>

definition parse_exponent :: "string \<Rightarrow> int option" where
  "parse_exponent s =
     (case s of
        [] \<Rightarrow> Some 0
      | c # r \<Rightarrow> if c = CHR ''e'' \<or> c = CHR ''E'' then signed_digits r else None)"

definition scale10 :: "real \<Rightarrow> int \<Rightarrow> real" where
  "scale10 m e = (if 0 \<le> e then m * 10 ^ nat e else m / 10 ^ nat (- e))"

definition parse_float :: "string \<Rightarrow> real option" where
  "parse_float s =
     (case strip_sign (strip_blanks s) of (neg, body) \<Rightarrow>
        (let ip = takeWhile is_digit body;
             r1 = dropWhile is_digit body;
             has_point = (r1 \<noteq> [] \<and> hd r1 = CHR ''.'');
             fp = (if has_point then takeWhile is_digit (tl r1) else []);
             r2 = (if has_point then dropWhile is_digit (tl r1) else r1);
             m = real (nat_of_digits ip) + real (nat_of_digits fp) / 10 ^ length fp
         in if ip = [] \<and> fp = [] then None
            else (case parse_exponent r2 of
                    None \<Rightarrow> None
                  | Some e \<Rightarrow> Some (scale10 (if neg then - m else m) e))))"

text \<open>
  Type inference for one column, in pandas' order. A column of integer literals is
  int64 when every value fits; when one does not, it is uint64 if every cell is
  unsigned and below \<open>2^64\<close>, and is left as text otherwise, as it is when a cell
  is missing beside such a value. A column of numbers and missing cells is
  float64. Then bool; otherwise object (text). A column of a frame without rows
  is an object column.
\<close>

definition infer_series :: "string list \<Rightarrow> series" where
  "infer_series cells =
     (if cells = [] then Object []
      else if list_all (\<lambda>c. int_literal c \<noteq> None) cells then
        (if list_all (\<lambda>c. int64_ok (the (int_literal c))) cells
           then Int64 (map (\<lambda>c. the (int_literal c)) cells)
         else if list_all (\<lambda>c. CHR ''-'' \<notin> set c \<and> the (int_literal c) < 2 ^ 64) cells
           then UInt64 (map (\<lambda>c. nat (the (int_literal c))) cells)
         else Object (map Some cells))
      else if list_all (\<lambda>c. is_na c \<or> int_literal c \<noteq> None) cells \<and>
              list_ex (\<lambda>c. \<not> is_na c \<and> \<not> int64_ok (the (int_literal c))) cells
        then Object (map (\<lambda>c. if is_na c then None else Some c) cells)
      else if list_all (\<lambda>c. is_na c \<or> parse_float c \<noteq> None) cells
        then Float64 (map (\<lambda>c. if is_na c then NaN else Fin (the (parse_float c))) cells)
      else if list_all (\<lambda>c. c \<in> set true_values \<or> c \<in> set false_values) cells
        then Bool (map (\<lambda>c. c \<in> set true_values) cells)
      else Object (map (\<lambda>c. if is_na c then None else Some c) cells))"

text \<open>A row shorter than the others is filled with missing cells.\<close>

definition cell_at :: "nat \<Rightarrow> string list \<Rightarrow> string" where
  "cell_at i row = (if i < length row then row ! i else [])"

text \<open>The decimal digits of a number, for the message of a ParserError.\<close>

fun nat_str :: "nat \<Rightarrow> string" where
  "nat_str n =
     (if n < 10 then [''0123456789'' ! n]
      else nat_str (n div 10) @ [''0123456789'' ! (n mod 10)])"

definition parser_error_msg :: "nat \<Rightarrow> nat \<Rightarrow> nat \<Rightarrow> string" where
  "parser_error_msg expected line saw =
     ''Error tokenizing data. C error: Expected '' @ nat_str expected
       @ '' fields in line '' @ nat_str line @ '', saw '' @ nat_str saw @ ''\<newline>''"

text \<open>
  The first line that is not blank is the header. Text without such a line raises
  EmptyDataError; a header with no line after it gives a frame with the header's
  columns and no row. When the first data row has more fields than the header, its
  leading fields are the row labels (an implicit index) and are not columns. A
  later row with more fields than that raises ParserError, with the number of its
  physical line.
\<close>

definition read_csv :: "string \<Rightarrow> py_error + dataframe" where
  "read_csv text =
     (case filter (\<lambda>l. \<not> is_blank (snd l)) (enumerate 1 (split_lines text)) of
        [] \<Rightarrow> Inl (Raise EmptyDataError ''No columns to parse from file'')
      | hl # rest \<Rightarrow>
          (let header = split_on CHR '','' (snd hl);
               rows = map (\<lambda>l. (fst l, split_on CHR '','' (snd l))) rest;
               lead = (case rows of [] \<Rightarrow> 0 | r # rs \<Rightarrow> length (snd r) - length header);
               expected = length header + lead
           in case find (\<lambda>r. expected < length (snd r)) rows of
                Some r \<Rightarrow>
                  Inl (Raise ParserError
                         (parser_error_msg expected (fst r) (length (snd r))))
              | None \<Rightarrow>
                  Inr \<lparr>nrows = length rows,
                       columns =
                         map (\<lambda>i. (header ! i,
                                   infer_series (map (\<lambda>r. cell_at (i + lead) (snd r)) rows)))
                             [0 ..< length header]\<rparr>))"

subsection \<open>The loader\<close>

text \<open>
  \<^verbatim>\<open>
  def load_csv_from_bytes(file_bytes):
      df = pd.read_csv(io.BytesIO(file_bytes))
      return df
  \<close>
\<close>

definition load_csv_from_bytes :: "string \<Rightarrow> py_error + dataframe" where
  "load_csv_from_bytes file_bytes = read_csv file_bytes"

text \<open>
  The characters of a plain header line: printable ASCII or a tab, and no double
  quote. Plain text is made of such characters and line feeds.
\<close>

definition plain_char :: "char \<Rightarrow> bool" where
  "plain_char c \<longleftrightarrow>
     (c = CHR 0x09 \<or> (32 \<le> (of_char c :: nat) \<and> (of_char c :: nat) < 127)) \<and> c \<noteq> CHR 0x22"

definition plain_text :: "string \<Rightarrow> bool" where
  "plain_text s \<longleftrightarrow> list_all (\<lambda>c. plain_char c \<or> c = CHR 0x0A) s"

section \<open>Validator\<close>

text \<open>
  \<^verbatim>\<open>
  def validate_dataframe(df):
      if df.empty:
          raise ValueError("Empty dataframe")
      return True
  \<close>
\<close>

definition validate_dataframe :: "dataframe \<Rightarrow> py_error + bool" where
  "validate_dataframe df =
     (if df_empty df then Inl (Raise ValueError ''Empty dataframe'') else Inr True)"

section \<open>Aggregator\<close>

text \<open>
  A statistic is an integer (numpy int64) or a float64. The per-column dictionary
  with the keys mean, sum, min and max, and the report itself, are Python
  dictionaries, kept as association lists in insertion order.
\<close>

datatype scalar = IntVal int | FloatVal f64

type_synonym column_stats = "(string \<times> scalar) list"

type_synonym statistics_report = "(string \<times> column_stats) list"

definition bind_err :: "'e + 'a \<Rightarrow> ('a \<Rightarrow> 'e + 'b) \<Rightarrow> 'e + 'b" where
  "bind_err m f = (case m of Inl e \<Rightarrow> Inl e | Inr v \<Rightarrow> f v)"

subsection \<open>pandas reductions\<close>

text \<open>Two's-complement wrap-around of a 64-bit accumulator.\<close>

definition wrap64 :: "int \<Rightarrow> int" where
  "wrap64 v = (v + 2 ^ 63) mod 2 ^ 64 - 2 ^ 63"

text \<open>The reductions skip missing values (\<open>skipna=True\<close>).\<close>

fun dropna :: "f64 list \<Rightarrow> real list" where
  "dropna [] = []"
| "dropna (Fin r # xs) = r # dropna xs"
| "dropna (NaN # xs) = dropna xs"

definition dtype :: "series \<Rightarrow> string" where
  "dtype s = (case s of Int64 _ \<Rightarrow> ''int64'' | UInt64 _ \<Rightarrow> ''uint64''
                | Float64 _ \<Rightarrow> ''float64'' | Bool _ \<Rightarrow> ''bool''
                | Object _ \<Rightarrow> ''object'')"

definition select_dtypes :: "string list \<Rightarrow> dataframe \<Rightarrow> dataframe" where
  "select_dtypes include df =
     df\<lparr>columns := filter (\<lambda>c. dtype (snd c) \<in> set include) (columns df)\<rparr>"

text \<open>
  \<open>df[col]\<close>: the column of that name; KeyError, whose text is the quoted name,
  when there is none.
\<close>

definition getitem :: "dataframe \<Rightarrow> string \<Rightarrow> py_error + series" where
  "getitem df col =
     (case map_of (columns df) col of
        None \<Rightarrow> Inl (Raise KeyError (CHR 0x27 # col @ [CHR 0x27]))
      | Some s \<Rightarrow> Inr s)"

text \<open>
  The reductions are modelled on int64 and float64 columns, the only ones the
  aggregator reduces. An int64 sum is accumulated in int64 and wraps around; an
  int64 mean is computed in float64. The sum of no value is zero (\<open>min_count=0\<close>);
  mean, min and max of no value are NaN. Minimum and maximum select a cell and are
  exact. The float64 sum and the means are given by the exact real result; pandas
  returns the float64 result of the machine additions and division, which agrees
  with it when no rounding occurs. On a uint64, bool or object column pandas
  computes other results or raises TypeError; the model raises.
\<close>

definition type_error :: "py_error + 'a" where
  "type_error = Inl (Raise OtherError ''TypeError'')"

fun series_mean :: "series \<Rightarrow> py_error + scalar" where
  "series_mean (Int64 xs) =
     Inr (FloatVal (if xs = [] then NaN
                    else Fin (real_of_int (sum_list xs) / real (length xs))))"
| "series_mean (Float64 xs) =
     Inr (FloatVal (if dropna xs = [] then NaN
                    else Fin (sum_list (dropna xs) / real (length (dropna xs)))))"
| "series_mean s = type_error"

fun series_sum :: "series \<Rightarrow> py_error + scalar" where
  "series_sum (Int64 xs) = Inr (IntVal (wrap64 (sum_list xs)))"
| "series_sum (Float64 xs) = Inr (FloatVal (Fin (sum_list (dropna xs))))"
| "series_sum s = type_error"

fun series_min :: "series \<Rightarrow> py_error + scalar" where
  "series_min (Int64 xs) =
     Inr (case xs of [] \<Rightarrow> FloatVal NaN | y # ys \<Rightarrow> IntVal (fold min ys y))"
| "series_min (Float64 xs) =
     Inr (FloatVal (case dropna xs of [] \<Rightarrow> NaN | y # ys \<Rightarrow> Fin (fold min ys y)))"
| "series_min s = type_error"

fun series_max :: "series \<Rightarrow> py_error + scalar" where
  "series_max (Int64 xs) =
     Inr (case xs of [] \<Rightarrow> FloatVal NaN | y # ys \<Rightarrow> IntVal (fold max ys y))"
| "series_max (Float64 xs) =
     Inr (FloatVal (case dropna xs of [] \<Rightarrow> NaN | y # ys \<Rightarrow> Fin (fold max ys y)))"
| "series_max s = type_error"

subsection \<open>aggregate\_data\<close>

text \<open>
  \<^verbatim>\<open>
  def aggregate_data(df):
      summary_stats = {}
      numeric_cols = df.select_dtypes(include=['float64', 'int64']).columns
      for col in numeric_cols:
          summary_stats[col] = {
              "mean": df[col].mean(),
              "sum": df[col].sum(),
              "min": df[col].min(),
              "max": df[col].max()
          }
      return summary_stats
  \<close>
\<close>

definition column_entry :: "dataframe \<Rightarrow> string \<Rightarrow> py_error + column_stats" where
  "column_entry df col =
     bind_err (getitem df col) (\<lambda>s.
     bind_err (series_mean s) (\<lambda>v_mean.
     bind_err (series_sum s) (\<lambda>v_sum.
     bind_err (series_min s) (\<lambda>v_min.
     bind_err (series_max s) (\<lambda>v_max.
       Inr [(''mean'', v_mean), (''sum'', v_sum), (''min'', v_min), (''max'', v_max)])))))"

fun aggregate_loop ::
  "dataframe \<Rightarrow> string list \<Rightarrow> statistics_report \<Rightarrow> py_error + statistics_report" where
  "aggregate_loop df [] summary_stats = Inr summary_stats"
| "aggregate_loop df (col # cols) summary_stats =
     bind_err (column_entry df col) (\<lambda>entry.
       aggregate_loop df cols (AList.update col entry summary_stats))"

definition aggregate_data :: "dataframe \<Rightarrow> py_error + statistics_report" where
  "aggregate_data df =
     (let numeric_cols = map fst (columns (select_dtypes [''float64'', ''int64''] df))
      in aggregate_loop df numeric_cols [])"

text \<open>The dictionary that the loop body builds for an int64 or float64 column.\<close>

definition numeric_entry :: "series \<Rightarrow> column_stats" where
  "numeric_entry s =
     (case (series_mean s, series_sum s, series_min s, series_max s) of
        (Inr v_mean, Inr v_sum, Inr v_min, Inr v_max) \<Rightarrow>
          [(''mean'', v_mean), (''sum'', v_sum), (''min'', v_min), (''max'', v_max)]
      | _ \<Rightarrow> [])"

section \<open>Library and collaborator functions taken as parameters\<close>

text \<open>
  A JSON value as \<open>json.loads\<close> returns it: None, bool, int, float, str, list or
  dict (an association list with distinct keys).
\<close>

datatype json =
    JNull
  | JBool bool
  | JInt int
  | JFloat f64
  | JString string
  | JArray "json list"
  | JObject "(string \<times> json) list"

text \<open>What is handed to the storage: the fields of a \<open>Report\<close> row.\<close>

record report =
  id' :: nat
  filename :: string
  total_rows :: nat
  summary_text :: string
  insight_score :: json

text \<open>
  The text functions of the standard library and of pandas, the external insight
  service and the storage are parameters of the pipeline: \<open>json.loads\<close>, \<open>str\<close>
  of a decoded JSON value, \<open>str\<close> of the statistics dictionary, the three
  renderers that \<open>DataFrame.to_string\<close> is made of (the header line, the line of
  one row, the notice printed for an empty frame), \<open>generate_insights\<close>, and the
  commit of a new report. A statement that holds for every such record holds
  whatever these functions return.
\<close>

record library =
  json_loads :: "string \<Rightarrow> py_error + json"
  str_json :: "json \<Rightarrow> string"
  str_stats :: "statistics_report \<Rightarrow> string"
  render_header :: "dataframe \<Rightarrow> string"
  render_row :: "dataframe \<Rightarrow> nat \<Rightarrow> string"
  render_empty :: "dataframe \<Rightarrow> string"
  generate_insights :: "string \<Rightarrow> py_error + string"
  db_commit :: "report \<Rightarrow> py_error + unit"

section \<open>Context Builder\<close>

text \<open>\<open>df.head(n)\<close>: the first \<open>n\<close> rows.\<close>

fun series_head :: "nat \<Rightarrow> series \<Rightarrow> series" where
  "series_head n (Int64 xs) = Int64 (take n xs)"
| "series_head n (UInt64 xs) = UInt64 (take n xs)"
| "series_head n (Float64 xs) = Float64 (take n xs)"
| "series_head n (Bool xs) = Bool (take n xs)"
| "series_head n (Object xs) = Object (take n xs)"

definition df_head :: "nat \<Rightarrow> dataframe \<Rightarrow> dataframe" where
  "df_head n df =
     \<lparr>nrows = min n (nrows df),
      columns = map (\<lambda>c. (fst c, series_head n (snd c))) (columns df)\<rparr>"

text \<open>
  \<open>df.to_string()\<close>: an empty frame is printed as a notice; any other frame as a
  header line followed by one line per row, the lines joined by line feeds. How a
  line is laid out (widths, number formats) is left to the renderers.
\<close>

fun join_lines :: "string list \<Rightarrow> string" where
  "join_lines [] = []"
| "join_lines [l] = l"
| "join_lines (l # m # ls) = l @ CHR 0x0A # join_lines (m # ls)"

definition to_string :: "library \<Rightarrow> dataframe \<Rightarrow> string" where
  "to_string lib df =
     (if df_empty df then render_empty lib df
      else join_lines (render_header lib df # map (render_row lib df) [0 ..< nrows df]))"

text \<open>
  \<^verbatim>\<open>
  def prepare_context_for_ai(df, stats):
      head_data = df.head(5).to_string()
      stats_string = str(stats)
      context = f"Data Head:\n{head_data}\n\nStatistics:\n{stats_string}"
      return context
  \<close>
\<close>

definition prepare_context_for_ai ::
  "library \<Rightarrow> dataframe \<Rightarrow> statistics_report \<Rightarrow> string" where
  "prepare_context_for_ai lib df stats =
     (let head_data = to_string lib (df_head 5 df);
          stats_string = str_stats lib stats
      in ''Data Head:\<newline>'' @ head_data @ ''\<newline>\<newline>Statistics:\<newline>'' @ stats_string)"


section \<open>Insight Orchestrator\<close>

subsection \<open>Normalization of the raw response\<close>

text \<open>
  \<open>insights_json.get(key, default)\<close>: a dict looks the key up; any other JSON
  value has no \<open>get\<close> and raises AttributeError.
\<close>

definition json_get :: "json \<Rightarrow> string \<Rightarrow> json \<Rightarrow> py_error + json" where
  "json_get j key dflt =
     (case j of
        JObject kvs \<Rightarrow> Inr (case map_of kvs key of None \<Rightarrow> dflt | Some v \<Rightarrow> v)
      | _ \<Rightarrow> Inl (Raise AttributeError ''object has no attribute get''))"

record insight_result =
  summaryText :: string
  score :: json

text \<open>
  \<^verbatim>\<open>
        try:
            insights_json = json.loads(ai_response)
            summary_text = str(insights_json)
            score = insights_json.get("overall_score", 0.0)
        except:
            summary_text = ai_response
            score = 50.0
  \<close>
  \<open>parse_insights\<close> is the body of the \<open>try\<close>; \<open>normalize_insights\<close> is the whole
  statement, whose bare \<open>except\<close> replaces any exception by the fallback.
\<close>

definition parse_insights :: "library \<Rightarrow> string \<Rightarrow> py_error + insight_result" where
  "parse_insights lib ai_response =
     bind_err (json_loads lib ai_response) (\<lambda>insights_json.
       let summary_text = str_json lib insights_json
       in bind_err (json_get insights_json ''overall_score'' (JFloat (Fin 0))) (\<lambda>v.
            Inr \<lparr>summaryText = summary_text, score = v\<rparr>))"

definition normalize_insights :: "library \<Rightarrow> string \<Rightarrow> py_error + insight_result" where
  "normalize_insights lib ai_response =
     (case parse_insights lib ai_response of
        Inr r \<Rightarrow> Inr r
      | Inl e \<Rightarrow> Inr \<lparr>summaryText = ai_response, score = JFloat (Fin 50)\<rparr>)"

subsection \<open>The upload pipeline\<close>

text \<open>
  The effects of a run: the contexts sent to the insight service, in order, and
  the reports stored. A new report gets the next identifier; whether its commit
  succeeds is the storage's answer.
\<close>

record world =
  ai_calls :: "string list"
  reports :: "report list"

datatype http_error = HTTPException nat string

record upload_response =
  status :: string
  report_id :: nat
  insights :: string

definition http_500 :: "py_error \<Rightarrow> http_error" where
  "http_500 e = HTTPException 500 (exc_str e)"

text \<open>
  \<^verbatim>\<open>
    try:
        contents = await file.read()
        df = load_csv_from_bytes(contents)
        validate_dataframe(df)
        stats = aggregate_data(df)
        context = prepare_context_for_ai(df, stats)
        ai_response = generate_insights(context)
        try: ... except: ...
        new_report = Report(filename=file.filename, total_rows=len(df),
                            summary_text=summary_text, insight_score=score)
        db.add(new_report); db.commit(); db.refresh(new_report)
        return {"status": "success", "report_id": new_report.id,
                "insights": summary_text}
    except Exception as e:
        raise HTTPException(status_code=500, detail=str(e))
  \<close>
\<close>

definition upload_report ::
  "library \<Rightarrow> string \<Rightarrow> string \<Rightarrow> world \<Rightarrow> (http_error + upload_response) \<times> world" where
  "upload_report lib contents fname w =
     (case load_csv_from_bytes contents of
        Inl e \<Rightarrow> (Inl (http_500 e), w)
      | Inr df \<Rightarrow>
     (case validate_dataframe df of
        Inl e \<Rightarrow> (Inl (http_500 e), w)
      | Inr ok \<Rightarrow>
     (case aggregate_data df of
        Inl e \<Rightarrow> (Inl (http_500 e), w)
      | Inr stats \<Rightarrow>
        (let context = prepare_context_for_ai lib df stats;
             w1 = w\<lparr>ai_calls := ai_calls w @ [context]\<rparr>
         in case generate_insights lib context of
              Inl e \<Rightarrow> (Inl (http_500 e), w1)
            | Inr ai_response \<Rightarrow>
           (case normalize_insights lib ai_response of
              Inl e \<Rightarrow> (Inl (http_500 e), w1)
            | Inr r \<Rightarrow>
                (let new_report =
                       \<lparr>id' = Suc (length (reports w1)), filename = fname,
                        total_rows = df_len df, summary_text = summaryText r,
                        insight_score = score r\<rparr>
                 in case db_commit lib new_report of
                      Inl e \<Rightarrow> (Inl (http_500 e), w1)
                    | Inr done_commit \<Rightarrow>
                        (Inr \<lparr>status = ''success'', report_id = id' new_report,
                              insights = summaryText r\<rparr>,
                         w1\<lparr>reports := reports w1 @ [new_report]\<rparr>)))))))"

text \<open>
  A stand-in for the parameters, used in the closed examples only. Its decoder
  knows two JSON texts, which it decodes as \<open>json.loads\<close> does, and rejects every
  other text; \<open>str\<close> renders the two decoded values as Python does; the frame
  renderers print the row number and the cells two blanks apart, which is pandas'
  layout when every name and every cell is one character wide; the insight service
  answers with the first of the two texts; the storage accepts a report whose
  score is a number or None.
\<close>

definition example_loads :: "string \<Rightarrow> py_error + json" where
  "example_loads s =
     (if s = ''{\"overall_score\": 92.5}''
        then Inr (JObject [(''overall_score'', JFloat (Fin 92.5))])
      else if s = ''{\"trend\": \"up\"}''
        then Inr (JObject [(''trend'', JString ''up'')])
      else Inl (Raise JSONDecodeError ''Expecting value''))"

definition example_str :: "json \<Rightarrow> string" where
  "example_str j =
     (if j = JObject [(''overall_score'', JFloat (Fin 92.5))] then ''{'overall_score': 92.5}''
      else if j = JObject [(''trend'', JString ''up'')] then ''{'trend': 'up'}''
      else ''<json>'')"

fun example_cell :: "cell \<Rightarrow> string" where
  "example_cell (IntCell v) = (if v < 0 then CHR ''-'' # nat_str (nat (- v)) else nat_str (nat v))"
| "example_cell (UIntCell n) = nat_str n"
| "example_cell (FloatCell x) = ''<float>''"
| "example_cell (BoolCell b) = (if b then ''True'' else ''False'')"
| "example_cell (ObjectCell None) = ''NaN''"
| "example_cell (ObjectCell (Some s)) = s"

definition example_header :: "dataframe \<Rightarrow> string" where
  "example_header df = '' '' @ concat (map (\<lambda>c. ''  '' @ fst c) (columns df))"

definition example_row :: "dataframe \<Rightarrow> nat \<Rightarrow> string" where
  "example_row df i =
     nat_str i @ concat (map (\<lambda>c. ''  '' @ example_cell (series_cells (snd c) ! i)) (columns df))"

definition example_commit :: "report \<Rightarrow> py_error + unit" where
  "example_commit r =
     (case insight_score r of
        JString s \<Rightarrow> Inl (Raise ValueError ''could not convert string to float'')
      | JArray xs \<Rightarrow> Inl (Raise OtherError ''TypeError'')
      | JObject kvs \<Rightarrow> Inl (Raise OtherError ''TypeError'')
      | _ \<Rightarrow> Inr ())"

definition example_library :: library where
  "example_library =
     \<lparr>json_loads = example_loads,
      str_json = example_str,
      str_stats = (\<lambda>r. ''<stats>''),
      render_header = example_header,
      render_row = example_row,
      render_empty = (\<lambda>df. ''Empty DataFrame''),
      generate_insights = (\<lambda>c. Inr ''{\"overall_score\": 92.5}''),
      db_commit = example_commit\<rparr>"

section \<open>Tabular Loader: properties\<close>

declare nat_str.simps [simp del]

lemmas loader_eval =
  load_csv_from_bytes_def read_csv_def is_blank_def is_space_def infer_series_def
  cell_at_def int_literal_def signed_digits_def strip_blanks_def parse_float_def
  parse_exponent_def scale10_def strip_sign_def is_digit_def nat_of_digits_def
  digit_val_def int64_ok_def is_na_def na_values_def true_values_def false_values_def
  enumerate_eq_zip parser_error_msg_def nat_str.simps

lemma split_on_not_Nil: "split_on sep s \<noteq> []"
  by (cases s) (auto split: list.splits)

lemma split_lines_one_line:
  "CHR 0x0A \<notin> set s \<Longrightarrow> CHR 0x0D \<notin> set s \<Longrightarrow> split_lines s = [s]"
  by (induction s rule: split_lines.induct) auto

lemma split_lines_one_line_ended:
  "CHR 0x0A \<notin> set s \<Longrightarrow> CHR 0x0D \<notin> set s \<Longrightarrow> split_lines (s @ ''\<newline>'') = [s, []]"
  by (induction s rule: split_lines.induct) auto

lemma plain_has_no_line_end:
  "list_all plain_char s \<Longrightarrow> CHR 0x0A \<notin> set s \<and> CHR 0x0D \<notin> set s"
  by (induction s) (auto simp add: plain_char_def)

lemma read_csv_header_only:
  assumes "CHR 0x0A \<notin> set header" and "CHR 0x0D \<notin> set header" and "\<not> is_blank header"
    and "contents = header \<or> contents = header @ ''\<newline>''"
  shows "read_csv contents
           = Inr \<lparr>nrows = 0,
                  columns = map (\<lambda>name. (name, Object [])) (split_on CHR '','' header)\<rparr>"
proof -
  have "filter (\<lambda>l. \<not> is_blank (snd l)) (enumerate 1 (split_lines contents)) = [(1, header)]"
    using assms
    by (auto simp add: split_lines_one_line split_lines_one_line_ended is_blank_def)
  moreover have "map (\<lambda>i. (split_on CHR '','' header ! i, Object []))
                     [0 ..< length (split_on CHR '','' header)]
                   = map (\<lambda>name. (name, Object [])) (split_on CHR '','' header)"
    by (rule nth_equalityI) simp_all
  ultimately show ?thesis
    by (simp add: read_csv_def infer_series_def)
qed

lemma filter_snd_Nil:
  "filter (\<lambda>l. \<not> P (snd l)) xs = [] \<longleftrightarrow> list_all P (map snd xs)"
  by (induction xs) auto

lemma read_csv_empty_data_iff:
  "(\<exists>msg. read_csv contents = Inl (Raise EmptyDataError msg))
     \<longleftrightarrow> list_all is_blank (split_lines contents)"
proof -
  let ?ls = "filter (\<lambda>l. \<not> is_blank (snd l)) (enumerate 1 (split_lines contents))"
  have "?ls = [] \<longleftrightarrow> list_all is_blank (map snd (enumerate 1 (split_lines contents)))"
    by (rule filter_snd_Nil)
  then have "?ls = [] \<longleftrightarrow> list_all is_blank (split_lines contents)"
    by simp
  moreover have "(\<exists>msg. read_csv contents = Inl (Raise EmptyDataError msg)) \<longleftrightarrow> ?ls = []"
    by (cases ?ls) (auto simp add: read_csv_def Let_def split: option.splits)
  ultimately show ?thesis by simp
qed

text \<open>
  C4, as stated: on a header row followed by zero data rows the Loader itself
  fails. The loader returns the frame of the header's columns with no row.
\<close>

theorem load_header_only_returns_frame:
  "load_csv_from_bytes ''a,b\<newline>''
     = Inr \<lparr>nrows = 0, columns = [(''a'', Object []), (''b'', Object [])]\<rparr>"
  by (simp add: loader_eval)

text \<open>
  C4, amended. For every input that is one plain header line, with or without its
  line end, the Loader does not fail: it returns a Dataset with zero rows and one
  empty text column per header field, and the columns bear the names of the header
  fields when these are non-empty and distinct. The Validator, run on that Dataset,
  is the stage that fails with the empty-dataset error. On plain text the Loader
  fails with EmptyDataError exactly when the text has no header line, that is when
  every line of it is blank.
\<close>

theorem load_header_only_then_validator_fails:
  "(\<forall>header. list_all plain_char header \<and> \<not> is_blank header \<and>
        (contents = header \<or> contents = header @ ''\<newline>'') \<longrightarrow>
      (\<exists>df. load_csv_from_bytes contents = Inr df \<and>
            df_len df = 0 \<and>
            map snd (columns df) = replicate (length (split_on CHR '','' header)) (Object []) \<and>
            (distinct (split_on CHR '','' header) \<and> [] \<notin> set (split_on CHR '','' header) \<longrightarrow>
               map fst (columns df) = split_on CHR '','' header) \<and>
            columns df \<noteq> [] \<and>
            validate_dataframe df = Inl (Raise ValueError ''Empty dataframe''))) \<and>
   (plain_text contents \<longrightarrow>
      ((\<exists>msg. load_csv_from_bytes contents = Inl (Raise EmptyDataError msg))
         \<longleftrightarrow> list_all is_blank (split_lines contents)))"
proof -
  have "\<exists>df. load_csv_from_bytes contents = Inr df \<and>
            df_len df = 0 \<and>
            map snd (columns df) = replicate (length (split_on CHR '','' header)) (Object []) \<and>
            (distinct (split_on CHR '','' header) \<and> [] \<notin> set (split_on CHR '','' header) \<longrightarrow>
               map fst (columns df) = split_on CHR '','' header) \<and>
            columns df \<noteq> [] \<and>
            validate_dataframe df = Inl (Raise ValueError ''Empty dataframe'')"
    if h: "list_all plain_char header" "\<not> is_blank header"
      "contents = header \<or> contents = header @ ''\<newline>''" for header
  proof -
    have "load_csv_from_bytes contents
            = Inr \<lparr>nrows = 0,
                   columns = map (\<lambda>name. (name, Object [])) (split_on CHR '','' header)\<rparr>"
      unfolding load_csv_from_bytes_def
      using plain_has_no_line_end [OF h(1)] h(2,3) by (intro read_csv_header_only) auto
    moreover have "map snd (map (\<lambda>name. (name, Object [])) (split_on CHR '','' header))
                     = replicate (length (split_on CHR '','' header)) (Object [])"
      by (simp add: comp_def map_replicate_const)
    ultimately show ?thesis
      by (simp add: df_len_def validate_dataframe_def df_empty_def split_on_not_Nil comp_def)
  qed
  then show ?thesis
    using read_csv_empty_data_iff [of contents]
    unfolding load_csv_from_bytes_def by blast
qed

theorem load_header_only_then_validator_fails_witness:
  "list_all plain_char ''a,b'' \<and> \<not> is_blank ''a,b'' \<and>
   (\<exists>df. load_csv_from_bytes ''a,b\<newline>'' = Inr df \<and>
         df_len df = 0 \<and>
         map snd (columns df) = [Object [], Object []] \<and>
         map fst (columns df) = [''a'', ''b''] \<and>
         validate_dataframe df = Inl (Raise ValueError ''Empty dataframe'')) \<and>
   plain_text ''a,b\<newline>'' \<and>
   \<not> (\<exists>msg. load_csv_from_bytes ''a,b\<newline>'' = Inl (Raise EmptyDataError msg)) \<and>
   plain_text '' \<newline>\<newline>'' \<and>
   (\<exists>msg. load_csv_from_bytes '' \<newline>\<newline>'' = Inl (Raise EmptyDataError msg))"
proof -
  have p: "list_all plain_char ''a,b''"
    by (simp add: plain_char_def)
  have b: "\<not> is_blank ''a,b''"
    by (simp add: is_blank_def is_space_def)
  have f: "split_on CHR '','' ''a,b'' = [''a'', ''b'']"
    by simp
  have t1: "plain_text ''a,b\<newline>''"
    by (simp add: plain_text_def plain_char_def)
  have t2: "plain_text '' \<newline>\<newline>''"
    by (simp add: plain_text_def plain_char_def)
  have l1: "\<not> list_all is_blank (split_lines ''a,b\<newline>'')"
    by (simp add: is_blank_def is_space_def)
  have l2: "list_all is_blank (split_lines '' \<newline>\<newline>'')"
    by (simp add: is_blank_def is_space_def)
  have first: "\<exists>df. load_csv_from_bytes ''a,b\<newline>'' = Inr df \<and>
         df_len df = 0 \<and>
         map snd (columns df) = [Object [], Object []] \<and>
         map fst (columns df) = [''a'', ''b''] \<and>
         validate_dataframe df = Inl (Raise ValueError ''Empty dataframe'')"
    using load_header_only_then_validator_fails
      [of "''a,b\<newline>''", THEN conjunct1, rule_format, of "''a,b''"] p b
    by (auto simp add: f numeral_2_eq_2)
  have e1: "\<not> (\<exists>msg. load_csv_from_bytes ''a,b\<newline>'' = Inl (Raise EmptyDataError msg))"
    using load_header_only_then_validator_fails [of "''a,b\<newline>''", THEN conjunct2] t1 l1
    by blast
  have e2: "\<exists>msg. load_csv_from_bytes '' \<newline>\<newline>'' = Inl (Raise EmptyDataError msg)"
    using load_header_only_then_validator_fails [of "'' \<newline>\<newline>''", THEN conjunct2] t2 l2
    by blast
  from p b first t1 e1 t2 e2 show ?thesis by blast
qed

text \<open>
  C8. The file with header a,b and the rows 1,2 and 3,4 and 5,x loads as an int64
  column a and an object column b; the Aggregator reports mean 3, sum 9, min 1 and
  max 5 for a, and b is not a key of the report.
\<close>

theorem csv_example_statistics:
  "load_csv_from_bytes ''a,b\<newline>1,2\<newline>3,4\<newline>5,x\<newline>''
     = Inr \<lparr>nrows = 3,
            columns = [(''a'', Int64 [1, 3, 5]),
                       (''b'', Object [Some ''2'', Some ''4'', Some ''x''])]\<rparr> \<and>
   bind_err (load_csv_from_bytes ''a,b\<newline>1,2\<newline>3,4\<newline>5,x\<newline>'') aggregate_data
     = Inr [(''a'', [(''mean'', FloatVal (Fin 3)), (''sum'', IntVal 9),
                     (''min'', IntVal 1), (''max'', IntVal 5)])] \<and>
   map_of [(''a'', [(''mean'', FloatVal (Fin 3)), (''sum'', IntVal 9),
                    (''min'', IntVal 1), (''max'', IntVal 5)])] ''b'' = None"
proof -
  have l: "load_csv_from_bytes ''a,b\<newline>1,2\<newline>3,4\<newline>5,x\<newline>''
     = Inr \<lparr>nrows = 3,
            columns = [(''a'', Int64 [1, 3, 5]),
                       (''b'', Object [Some ''2'', Some ''4'', Some ''x''])]\<rparr>"
    by (simp add: loader_eval)
  have a: "aggregate_data \<lparr>nrows = 3,
            columns = [(''a'', Int64 [1, 3, 5]),
                       (''b'', Object [Some ''2'', Some ''4'', Some ''x''])]\<rparr>
     = Inr [(''a'', [(''mean'', FloatVal (Fin 3)), (''sum'', IntVal 9),
                     (''min'', IntVal 1), (''max'', IntVal 5)])]"
    by (simp add: aggregate_data_def select_dtypes_def dtype_def column_entry_def
        getitem_def bind_err_def wrap64_def)
  show ?thesis
    unfolding l by (simp add: a bind_err_def)
qed

section \<open>Validator: properties\<close>

text \<open>
  C5, as stated: the Validator fails exactly when the row count is zero, so a
  Dataset with rows and no column passes. The frame of three rows and no column is
  rejected all the same.
\<close>

theorem validate_rows_without_columns_rejected:
  "wf_dataframe \<lparr>nrows = 3, columns = []\<rparr> \<and>
   df_len \<lparr>nrows = 3, columns = []\<rparr> = 3 \<and>
   validate_dataframe \<lparr>nrows = 3, columns = []\<rparr> = Inl (Raise ValueError ''Empty dataframe'')"
  by (simp add: wf_dataframe_def df_len_def validate_dataframe_def df_empty_def)

text \<open>
  C5, amended: the Validator fails with the empty-dataset error exactly when the
  Dataset has zero rows or zero columns, and returns True otherwise. In particular
  every Dataset with zero rows is rejected.
\<close>

theorem validate_dataframe_fails_iff_empty:
  "(validate_dataframe df = Inl (Raise ValueError ''Empty dataframe'')
      \<longleftrightarrow> df_len df = 0 \<or> columns df = []) \<and>
   (validate_dataframe df = Inr True \<longleftrightarrow> 0 < df_len df \<and> columns df \<noteq> [])"
  by (auto simp add: validate_dataframe_def df_empty_def df_len_def)

section \<open>Aggregator: properties\<close>

subsection \<open>The loop visits exactly the int64 and float64 columns\<close>

lemma update_fresh:
  "k \<notin> fst ` set al \<Longrightarrow> AList.update k v al = al @ [(k, v)]"
  by (induction al) auto

lemma column_entry_numeric:
  assumes "map_of (columns df) n = Some s"
    and "dtype s = ''float64'' \<or> dtype s = ''int64''"
  shows "column_entry df n = Inr (numeric_entry s)"
  using assms
  by (cases s) (simp_all add: column_entry_def getitem_def bind_err_def numeric_entry_def dtype_def)

lemma aggregate_loop_numeric:
  assumes "distinct (map fst cs)"
    and "\<forall>c\<in>set cs. map_of (columns df) (fst c) = Some (snd c)
            \<and> (dtype (snd c) = ''float64'' \<or> dtype (snd c) = ''int64'')"
    and "fst ` set cs \<inter> fst ` set acc = {}"
  shows "aggregate_loop df (map fst cs) acc
           = Inr (acc @ map (\<lambda>c. (fst c, numeric_entry (snd c))) cs)"
  using assms
proof (induction cs arbitrary: acc)
  case Nil
  then show ?case by simp
next
  case (Cons c cs)
  have entry: "column_entry df (fst c) = Inr (numeric_entry (snd c))"
    using Cons.prems(2) by (intro column_entry_numeric) auto
  have fresh: "fst c \<notin> fst ` set acc"
    using Cons.prems(3) by auto
  let ?acc = "acc @ [(fst c, numeric_entry (snd c))]"
  have disj: "fst ` set cs \<inter> fst ` set ?acc = {}"
    using Cons.prems(1,3) by auto
  have "aggregate_loop df (map fst cs) ?acc
          = Inr (?acc @ map (\<lambda>c. (fst c, numeric_entry (snd c))) cs)"
    using Cons.prems(1,2) disj by (intro Cons.IH) auto
  then show ?case
    by (simp add: entry bind_err_def update_fresh [OF fresh])
qed

lemma numeric_columns_lookup:
  assumes "distinct (map fst cs)" and "c \<in> set (filter P cs)"
  shows "map_of cs (fst c) = Some (snd c)"
proof -
  from assms(2) have "(fst c, snd c) \<in> set cs" by simp
  with assms(1) show ?thesis by (rule map_of_is_SomeI)
qed

lemma aggregate_data_numeric_columns:
  assumes "distinct (map fst (columns df))"
  shows "aggregate_data df
           = Inr (map (\<lambda>c. (fst c, numeric_entry (snd c)))
                      (filter (\<lambda>c. dtype (snd c) = ''float64'' \<or> dtype (snd c) = ''int64'')
                              (columns df)))"
proof -
  define cs where
    "cs = filter (\<lambda>c. dtype (snd c) = ''float64'' \<or> dtype (snd c) = ''int64'') (columns df)"
  have d: "distinct (map fst cs)"
    unfolding cs_def using assms by (rule distinct_map_filter)
  have m: "\<forall>c\<in>set cs. map_of (columns df) (fst c) = Some (snd c)
              \<and> (dtype (snd c) = ''float64'' \<or> dtype (snd c) = ''int64'')"
  proof
    fix c assume c: "c \<in> set cs"
    then have "map_of (columns df) (fst c) = Some (snd c)"
      unfolding cs_def by (rule numeric_columns_lookup [OF assms])
    moreover from c have "dtype (snd c) = ''float64'' \<or> dtype (snd c) = ''int64''"
      unfolding cs_def by simp
    ultimately show "map_of (columns df) (fst c) = Some (snd c)
              \<and> (dtype (snd c) = ''float64'' \<or> dtype (snd c) = ''int64'')" by simp
  qed
  have e: "fst ` set cs \<inter> fst ` set ([] :: statistics_report) = {}" by simp
  have "aggregate_loop df (map fst cs) [] = Inr ([] @ map (\<lambda>c. (fst c, numeric_entry (snd c))) cs)"
    using d m e by (rule aggregate_loop_numeric)
  moreover have "aggregate_data df = aggregate_loop df (map fst cs) []"
    unfolding cs_def by (simp add: aggregate_data_def select_dtypes_def)
  ultimately show ?thesis
    unfolding cs_def by simp
qed




lemma map_of_report:
  assumes "distinct (map fst cs)" and "(n, s) \<in> set cs" and "P (n, s)"
  shows "map_of (map (\<lambda>c. (fst c, f (snd c))) (filter P cs)) n = Some (f s)"
proof -
  have "distinct (map fst (map (\<lambda>c. (fst c, f (snd c))) (filter P cs)))"
    using assms(1) by (simp add: comp_def distinct_map_filter)
  moreover have "(n, f s) \<in> set (map (\<lambda>c. (fst c, f (snd c))) (filter P cs))"
    using assms(2,3) by force
  ultimately show ?thesis by (rule map_of_is_SomeI)
qed


subsection \<open>Entries of the report\<close>

lemma report_lookup_float:
  assumes "distinct (map fst (columns df))" and "(n, Float64 xs) \<in> set (columns df)"
  shows "aggregate_data df = Inr report \<Longrightarrow> map_of report n = Some (numeric_entry (Float64 xs))"
  using map_of_report [of "columns df" n "Float64 xs"
      "\<lambda>c. dtype (snd c) = ''float64'' \<or> dtype (snd c) = ''int64''" numeric_entry] assms
  by (simp add: aggregate_data_numeric_columns dtype_def)










lemma entry_all_missing:
  assumes "dropna xs = []"
  shows "numeric_entry (Float64 xs)
           = [(''mean'', FloatVal NaN), (''sum'', FloatVal (Fin 0)),
              (''min'', FloatVal NaN), (''max'', FloatVal NaN)]"
  using assms by (simp add: numeric_entry_def)

lemma dropna_all_NaN: "list_all (\<lambda>x. x = NaN) xs \<Longrightarrow> dropna xs = []"
  by (induction xs) auto

subsection \<open>The report of a well-formed Dataset\<close>




text \<open>
  C10. A numeric column with missing values is a float64 column (an int64 column
  holds none). When every cell of such a column is missing, the column is still a
  key of the report, with sum 0.0 and with mean, min and max NaN.
\<close>

theorem all_missing_column_reported:
  assumes "wf_dataframe df"
    and "(n, Float64 xs) \<in> set (columns df)"
    and "list_all (\<lambda>x. x = NaN) xs"
  shows "\<exists>report. aggregate_data df = Inr report \<and>
           n \<in> set (map fst report) \<and>
           map_of report n = Some [(''mean'', FloatVal NaN), (''sum'', FloatVal (Fin 0)),
                                   (''min'', FloatVal NaN), (''max'', FloatVal NaN)]"
proof -
  from assms(1) have d: "distinct (map fst (columns df))"
    by (simp add: wf_dataframe_def)
  obtain report where r: "aggregate_data df = Inr report"
    using aggregate_data_numeric_columns [OF d] by blast
  have "map_of report n = Some (numeric_entry (Float64 xs))"
    using report_lookup_float [OF d assms(2) r] .
  then have m: "map_of report n = Some [(''mean'', FloatVal NaN), (''sum'', FloatVal (Fin 0)),
                                   (''min'', FloatVal NaN), (''max'', FloatVal NaN)]"
    by (simp add: entry_all_missing [OF dropna_all_NaN [OF assms(3)]])
  then have "n \<in> set (map fst report)"
    by (metis map_of_eq_None_iff option.distinct(1) set_map)
  with r m show ?thesis by blast
qed

theorem all_missing_column_reported_witness:
  "wf_dataframe \<lparr>nrows = 2, columns = [(''a'', Int64 [1, 2]), (''b'', Float64 [NaN, NaN])]\<rparr> \<and>
   (''b'', Float64 [NaN, NaN])
      \<in> set (columns \<lparr>nrows = 2, columns = [(''a'', Int64 [1, 2]), (''b'', Float64 [NaN, NaN])]\<rparr>) \<and>
   list_all (\<lambda>x. x = NaN) [NaN, NaN] \<and>
   (\<exists>report.
      aggregate_data \<lparr>nrows = 2, columns = [(''a'', Int64 [1, 2]), (''b'', Float64 [NaN, NaN])]\<rparr>
        = Inr report \<and>
      ''b'' \<in> set (map fst report) \<and>
      map_of report ''b'' = Some [(''mean'', FloatVal NaN), (''sum'', FloatVal (Fin 0)),
                                  (''min'', FloatVal NaN), (''max'', FloatVal NaN)])"
proof -
  let ?df = "\<lparr>nrows = 2, columns = [(''a'', Int64 [1, 2]), (''b'', Float64 [NaN, NaN])]\<rparr>"
  have wf: "wf_dataframe ?df"
    by (simp add: wf_dataframe_def int64_ok_def)
  have mem: "(''b'', Float64 [NaN, NaN]) \<in> set (columns ?df)"
    by simp
  have nan: "list_all (\<lambda>x. x = NaN) [NaN, NaN]"
    by simp
  from all_missing_column_reported [OF wf mem nan] wf mem nan show ?thesis
    by blast
qed

section \<open>Context Builder: properties\<close>









section \<open>Insight Orchestrator: properties\<close>

subsection \<open>Normalization\<close>

lemma normalize_insights_cases:
  "normalize_insights lib raw =
     (case json_loads lib raw of
        Inl e \<Rightarrow> Inr \<lparr>summaryText = raw, score = JFloat (Fin 50)\<rparr>
      | Inr j \<Rightarrow>
          (case j of
             JObject d \<Rightarrow>
               Inr \<lparr>summaryText = str_json lib j,
                    score = (case map_of d ''overall_score'' of
                               None \<Rightarrow> JFloat (Fin 0) | Some v \<Rightarrow> v)\<rparr>
           | _ \<Rightarrow> Inr \<lparr>summaryText = raw, score = JFloat (Fin 50)\<rparr>))"
  by (simp add: normalize_insights_def parse_insights_def bind_err_def json_get_def
      split: sum.splits json.splits)

text \<open>
  C1. When the raw response decodes to an object whose field overall\_score has
  the value v (92.5 in the spec's example), the score is v and the summary text is
  the rendering of the decoded object. When the raw response does not decode, the
  summary text is the raw response itself and the score is 50.0.
\<close>

theorem normalize_insights_score:
  "(\<forall>d v. json_loads lib raw = Inr (JObject d) \<and> map_of d ''overall_score'' = Some v \<longrightarrow>
      normalize_insights lib raw
        = Inr \<lparr>summaryText = str_json lib (JObject d), score = v\<rparr>) \<and>
   (\<forall>e. json_loads lib raw = Inl e \<longrightarrow>
      normalize_insights lib raw = Inr \<lparr>summaryText = raw, score = JFloat (Fin 50)\<rparr>)"
  by (simp add: normalize_insights_cases)

theorem normalize_insights_score_witness:
  "json_loads example_library ''{\"overall_score\": 92.5}''
     = Inr (JObject [(''overall_score'', JFloat (Fin 92.5))]) \<and>
   normalize_insights example_library ''{\"overall_score\": 92.5}''
     = Inr \<lparr>summaryText = ''{'overall_score': 92.5}'', score = JFloat (Fin 92.5)\<rparr> \<and>
   json_loads example_library ''Sales are strong.''
     = Inl (Raise JSONDecodeError ''Expecting value'') \<and>
   normalize_insights example_library ''Sales are strong.''
     = Inr \<lparr>summaryText = ''Sales are strong.'', score = JFloat (Fin 50)\<rparr>"
proof -
  have l1: "json_loads example_library ''{\"overall_score\": 92.5}''
     = Inr (JObject [(''overall_score'', JFloat (Fin 92.5))])"
    by (simp add: example_library_def example_loads_def)
  have g1: "map_of [(''overall_score'', JFloat (Fin 92.5))] ''overall_score''
     = Some (JFloat (Fin 92.5))"
    by simp
  have s1: "str_json example_library (JObject [(''overall_score'', JFloat (Fin 92.5))])
     = ''{'overall_score': 92.5}''"
    by (simp add: example_library_def example_str_def)
  have l2: "json_loads example_library ''Sales are strong.''
     = Inl (Raise JSONDecodeError ''Expecting value'')"
    by (simp add: example_library_def example_loads_def)
  have n1: "normalize_insights example_library ''{\"overall_score\": 92.5}''
     = Inr \<lparr>summaryText = ''{'overall_score': 92.5}'', score = JFloat (Fin 92.5)\<rparr>"
    using normalize_insights_score [of example_library "''{\"overall_score\": 92.5}''"] l1 g1 s1
    by simp
  have n2: "normalize_insights example_library ''Sales are strong.''
     = Inr \<lparr>summaryText = ''Sales are strong.'', score = JFloat (Fin 50)\<rparr>"
    using normalize_insights_score [of example_library "''Sales are strong.''"] l2
    by simp
  from l1 n1 l2 n2 show ?thesis by simp
qed

text \<open>
  C2. For every raw response and whatever the decoder returns, normalization
  returns an InsightResult and raises nothing: a response that does not decode, or
  that decodes to a value that is not an object, gives the fallback result.
\<close>

theorem normalize_insights_never_raises:
  "(\<exists>r. normalize_insights lib raw = Inr r) \<and>
   normalize_insights lib raw =
     (case json_loads lib raw of
        Inl e \<Rightarrow> Inr \<lparr>summaryText = raw, score = JFloat (Fin 50)\<rparr>
      | Inr j \<Rightarrow>
          (case j of
             JObject d \<Rightarrow>
               Inr \<lparr>summaryText = str_json lib j,
                    score = (case map_of d ''overall_score'' of
                               None \<Rightarrow> JFloat (Fin 0) | Some v \<Rightarrow> v)\<rparr>
           | _ \<Rightarrow> Inr \<lparr>summaryText = raw, score = JFloat (Fin 50)\<rparr>))"
proof -
  have "\<exists>r. normalize_insights lib raw = Inr r"
    by (cases "parse_insights lib raw") (simp_all add: normalize_insights_def)
  then show ?thesis
    using normalize_insights_cases [of lib raw] by simp
qed

text \<open>
  C9. When the raw response decodes to an object without the field overall\_score,
  the score is 0.0, which is not the fallback 50.0, and the summary text is the
  rendering of the decoded object.
\<close>

theorem normalize_insights_missing_score:
  assumes "json_loads lib raw = Inr (JObject d)"
    and "map_of d ''overall_score'' = None"
  shows "normalize_insights lib raw
           = Inr \<lparr>summaryText = str_json lib (JObject d), score = JFloat (Fin 0)\<rparr> \<and>
         JFloat (Fin 0) \<noteq> JFloat (Fin 50)"
  using assms by (simp add: normalize_insights_cases)

theorem normalize_insights_missing_score_witness:
  "json_loads example_library ''{\"trend\": \"up\"}'' = Inr (JObject [(''trend'', JString ''up'')]) \<and>
   map_of [(''trend'', JString ''up'')] ''overall_score'' = None \<and>
   normalize_insights example_library ''{\"trend\": \"up\"}''
     = Inr \<lparr>summaryText = ''{'trend': 'up'}'', score = JFloat (Fin 0)\<rparr>"
proof -
  have l: "json_loads example_library ''{\"trend\": \"up\"}''
     = Inr (JObject [(''trend'', JString ''up'')])"
    by (simp add: example_library_def example_loads_def)
  have g: "map_of [(''trend'', JString ''up'')] ''overall_score'' = None"
    by simp
  have s: "str_json example_library (JObject [(''trend'', JString ''up'')]) = ''{'trend': 'up'}''"
    by (simp add: example_library_def example_str_def)
  from normalize_insights_missing_score [OF l g] l g s show ?thesis
    by simp
qed

subsection \<open>The upload pipeline\<close>

lemma upload_report_load_error:
  "load_csv_from_bytes contents = Inl e \<Longrightarrow>
   upload_report lib contents fname w = (Inl (http_500 e), w)"
  by (simp add: upload_report_def)

lemma upload_report_validate_error:
  "load_csv_from_bytes contents = Inr df \<Longrightarrow> validate_dataframe df = Inl e \<Longrightarrow>
   upload_report lib contents fname w = (Inl (http_500 e), w)"
  by (simp add: upload_report_def)

lemma upload_report_aggregate_error:
  "load_csv_from_bytes contents = Inr df \<Longrightarrow> validate_dataframe df = Inr ok \<Longrightarrow>
   aggregate_data df = Inl e \<Longrightarrow>
   upload_report lib contents fname w = (Inl (http_500 e), w)"
  by (simp add: upload_report_def)

text \<open>
  Once the Dataset is loaded, validated and aggregated, the insight service is
  called: the context is appended to the calls, whatever the service and the
  storage answer.
\<close>

lemma upload_report_calls_service:
  assumes "load_csv_from_bytes contents = Inr df"
    and "validate_dataframe df = Inr ok"
    and "aggregate_data df = Inr stats"
  shows "ai_calls (snd (upload_report lib contents fname w))
           = ai_calls w @ [prepare_context_for_ai lib df stats]"
proof (cases "generate_insights lib (prepare_context_for_ai lib df stats)")
  case (Inl e)
  with assms show ?thesis
    by (simp add: upload_report_def Let_def)
next
  case (Inr ai_response)
  obtain r where "normalize_insights lib ai_response = Inr r"
    by (cases "parse_insights lib ai_response") (simp_all add: normalize_insights_def)
  with assms Inr show ?thesis
    by (simp add: upload_report_def Let_def split: sum.splits)
qed

text \<open>
  When the storage refuses the new report, the run ends with that error after the
  call of the insight service, and no report is stored.
\<close>

lemma upload_report_commit_error:
  assumes "load_csv_from_bytes contents = Inr df"
    and "validate_dataframe df = Inr ok"
    and "aggregate_data df = Inr stats"
    and "generate_insights lib (prepare_context_for_ai lib df stats) = Inr ai_response"
    and "normalize_insights lib ai_response = Inr r"
    and "db_commit lib \<lparr>id' = Suc (length (reports w)), filename = fname,
                         total_rows = df_len df, summary_text = summaryText r,
                         insight_score = score r\<rparr> = Inl e"
  shows "upload_report lib contents fname w
           = (Inl (http_500 e), w\<lparr>ai_calls := ai_calls w @ [prepare_context_for_ai lib df stats]\<rparr>)"
  using assms by (simp add: upload_report_def Let_def)

text \<open>
  C6. An upload whose body is one plain header line, and any upload whose Dataset
  has zero rows, fails with the empty-dataset error and leaves the world as it was:
  no call of the insight service, no stored report. More generally, an error of the
  Loader, the Validator or the Aggregator ends the run with that error and an
  unchanged world. (The Context Builder raises nothing: it only concatenates the
  two renderings.)
\<close>

theorem upload_report_fails_before_effects:
  "(\<forall>header. list_all plain_char header \<and> \<not> is_blank header \<and>
        (contents = header \<or> contents = header @ ''\<newline>'') \<longrightarrow>
      upload_report lib contents fname w
        = (Inl (HTTPException 500 ''Empty dataframe''), w)) \<and>
   (\<forall>df. load_csv_from_bytes contents = Inr df \<and> df_len df = 0 \<longrightarrow>
      upload_report lib contents fname w
        = (Inl (HTTPException 500 ''Empty dataframe''), w)) \<and>
   (\<forall>e. load_csv_from_bytes contents = Inl e \<longrightarrow>
      upload_report lib contents fname w = (Inl (http_500 e), w)) \<and>
   (\<forall>df e. load_csv_from_bytes contents = Inr df \<and> validate_dataframe df = Inl e \<longrightarrow>
      upload_report lib contents fname w = (Inl (http_500 e), w)) \<and>
   (\<forall>df ok e. load_csv_from_bytes contents = Inr df \<and> validate_dataframe df = Inr ok \<and>
        aggregate_data df = Inl e \<longrightarrow>
      upload_report lib contents fname w = (Inl (http_500 e), w))"
proof -
  have "upload_report lib contents fname w = (Inl (HTTPException 500 ''Empty dataframe''), w)"
    if h: "list_all plain_char header" "\<not> is_blank header"
      "contents = header \<or> contents = header @ ''\<newline>''" for header
  proof -
    have "read_csv contents
           = Inr \<lparr>nrows = 0,
                  columns = map (\<lambda>name. (name, Object [])) (split_on CHR '','' header)\<rparr>"
      using plain_has_no_line_end [OF h(1)] h(2,3) by (intro read_csv_header_only) auto
    then show ?thesis
      by (simp add: upload_report_def load_csv_from_bytes_def validate_dataframe_def
          df_empty_def http_500_def)
  qed
  moreover have
    "upload_report lib contents fname w = (Inl (HTTPException 500 ''Empty dataframe''), w)"
    if "load_csv_from_bytes contents = Inr df" "df_len df = 0" for df
    using that
    by (simp add: upload_report_def validate_dataframe_def df_empty_def df_len_def http_500_def)
  ultimately show ?thesis
    using upload_report_load_error upload_report_validate_error upload_report_aggregate_error
    by blast
qed

theorem upload_report_fails_before_effects_witness:
  "list_all plain_char ''a,b'' \<and> \<not> is_blank ''a,b'' \<and>
   upload_report example_library ''a,b\<newline>'' ''r.csv'' \<lparr>ai_calls = [], reports = []\<rparr>
     = (Inl (HTTPException 500 ''Empty dataframe''), \<lparr>ai_calls = [], reports = []\<rparr>) \<and>
   load_csv_from_bytes '''' = Inl (Raise EmptyDataError ''No columns to parse from file'') \<and>
   upload_report example_library '''' ''r.csv'' \<lparr>ai_calls = [], reports = []\<rparr>
     = (Inl (HTTPException 500 ''No columns to parse from file''),
        \<lparr>ai_calls = [], reports = []\<rparr>) \<and>
   upload_report example_library ''a,b\<newline>1,2\<newline>3,4\<newline>5,x\<newline>'' ''r.csv''
       \<lparr>ai_calls = [], reports = []\<rparr>
     = (Inr \<lparr>status = ''success'', report_id = 1, insights = ''{'overall_score': 92.5}''\<rparr>,
        \<lparr>ai_calls = [''Data Head:\<newline>   a  b\<newline>0  1  2\<newline>1  3  4\<newline>2  5  x\<newline>\<newline>Statistics:\<newline><stats>''],
         reports = [\<lparr>id' = 1, filename = ''r.csv'', total_rows = 3,
                     summary_text = ''{'overall_score': 92.5}'',
                     insight_score = JFloat (Fin 92.5)\<rparr>]\<rparr>)"
proof -
  let ?w = "\<lparr>ai_calls = [], reports = []\<rparr>"
  let ?df = "\<lparr>nrows = 3,
            columns = [(''a'', Int64 [1, 3, 5]),
                       (''b'', Object [Some ''2'', Some ''4'', Some ''x''])]\<rparr>"
  have p: "list_all plain_char ''a,b''"
    by (simp add: plain_char_def)
  have b: "\<not> is_blank ''a,b''"
    by (simp add: is_blank_def is_space_def)
  have e: "load_csv_from_bytes '''' = Inl (Raise EmptyDataError ''No columns to parse from file'')"
    by (simp add: loader_eval)
  have u1: "upload_report example_library ''a,b\<newline>'' ''r.csv'' ?w
     = (Inl (HTTPException 500 ''Empty dataframe''), ?w)"
    using upload_report_fails_before_effects
      [of "''a,b\<newline>''" example_library "''r.csv''" ?w, THEN conjunct1, rule_format, of "''a,b''"]
      p b
    by simp
  have u2: "upload_report example_library '''' ''r.csv'' ?w
     = (Inl (HTTPException 500 ''No columns to parse from file''), ?w)"
    using upload_report_fails_before_effects [of "''''" example_library "''r.csv''" ?w] e
    by (simp add: http_500_def)
  have l: "load_csv_from_bytes ''a,b\<newline>1,2\<newline>3,4\<newline>5,x\<newline>'' = Inr ?df"
    by (simp add: loader_eval)
  have a: "aggregate_data ?df
     = Inr [(''a'', [(''mean'', FloatVal (Fin 3)), (''sum'', IntVal 9),
                     (''min'', IntVal 1), (''max'', IntVal 5)])]"
    by (simp add: aggregate_data_def select_dtypes_def dtype_def column_entry_def
        getitem_def bind_err_def wrap64_def)
  have n: "normalize_insights example_library ''{\"overall_score\": 92.5}''
     = Inr \<lparr>summaryText = ''{'overall_score': 92.5}'', score = JFloat (Fin 92.5)\<rparr>"
    by (simp add: normalize_insights_cases example_library_def example_loads_def
        example_str_def)
  have g: "generate_insights example_library c = Inr ''{\"overall_score\": 92.5}''" for c
    by (simp add: example_library_def)
  have up: "[0 ..< 3] = [0, 1, 2 :: nat]"
    by (simp add: upt_rec)
  have t: "to_string example_library (df_head 5 ?df)
     = ''   a  b\<newline>0  1  2\<newline>1  3  4\<newline>2  5  x''"
    by (simp add: to_string_def df_empty_def df_head_def up example_library_def
        example_header_def example_row_def nat_str.simps)
  have c: "prepare_context_for_ai example_library ?df stats
     = ''Data Head:\<newline>   a  b\<newline>0  1  2\<newline>1  3  4\<newline>2  5  x\<newline>\<newline>Statistics:\<newline><stats>''"
    for stats
    unfolding prepare_context_for_ai_def t by (simp add: example_library_def)
  have k: "db_commit example_library r = Inr ()" if "insight_score r = JFloat (Fin 92.5)" for r
    using that by (simp add: example_library_def example_commit_def)
  have u3: "upload_report example_library ''a,b\<newline>1,2\<newline>3,4\<newline>5,x\<newline>'' ''r.csv'' ?w
     = (Inr \<lparr>status = ''success'', report_id = 1, insights = ''{'overall_score': 92.5}''\<rparr>,
        \<lparr>ai_calls = [''Data Head:\<newline>   a  b\<newline>0  1  2\<newline>1  3  4\<newline>2  5  x\<newline>\<newline>Statistics:\<newline><stats>''],
         reports = [\<lparr>id' = 1, filename = ''r.csv'', total_rows = 3,
                     summary_text = ''{'overall_score': 92.5}'',
                     insight_score = JFloat (Fin 92.5)\<rparr>]\<rparr>)"
    unfolding upload_report_def l
    by (simp add: a g c n k validate_dataframe_def df_empty_def df_len_def)
  from p b e u1 u2 u3 show ?thesis by simp
qed

end
